theory Spec2Isabelle
  imports Complex_Main
begin

section \<open>Data model\<close>

text \<open>
  The records of \<^verbatim>\<open>types.ts\<close>. Field names carry a prefix where the same name is
  used by several interfaces (\<^verbatim>\<open>id\<close>, \<^verbatim>\<open>text\<close>, \<^verbatim>\<open>timestamp\<close>).
\<close>

record CodeSnippet =
  snippet_id :: string
  snippet_language :: string
  snippet_code :: string
  snippet_description :: string
  snippet_timestamp :: int

record GroundingLink =
  link_uri :: string
  link_title :: string

datatype Role = RoleUser | RoleAssistant

record ChatMessage =
  chat_id :: string
  chat_role :: Role
  chat_text :: string
  chat_image :: "string option"
  chat_video :: "string option"
  chat_audio :: "string option"
  chat_timestamp :: int
  chat_groundingLinks :: "GroundingLink list option"
  chat_isThinking :: "bool option"

datatype View = ViewCode | ViewPreview | ViewAssistant | ViewStudio

datatype Grounding = GroundingNone | GroundingSearch | GroundingMaps

text \<open>
  \<^verbatim>\<open>AppState & { liveUserText: string, liveAiText: string }\<close>: the React state of
  \<^verbatim>\<open>App\<close>. Every \<^verbatim>\<open>setState(p => ({ ...p, f: v }))\<close> of the source is a record update.
\<close>

record AppState =
  isListening :: bool
  isProcessing :: bool
  currentCode :: string
  currentDescription :: string
  history :: "CodeSnippet list"
  error :: "string option"
  liveUserText :: string
  liveAiText :: string
  view :: View
  chatHistory :: "ChatMessage list"
  selectedImage :: "string option"
  useThinking :: bool
  useGrounding :: Grounding

subsection \<open>Platform objects held in the refs\<close>

text \<open>
  An \<^verbatim>\<open>AudioContext\<close> is created open with a sample rate; \<^verbatim>\<open>close()\<close> is the only
  operation the program performs on its state. Its clock \<^verbatim>\<open>currentTime\<close> is read from
  the environment at each use.
\<close>

record AudioContext =
  ctx_sampleRate :: nat
  ctx_closed :: bool

record MediaStream =
  stream_tracksStopped :: bool

record ScriptProcessor =
  processor_bufferSize :: nat
  processor_connected :: bool

text \<open>
  A decoded \<^verbatim>\<open>AudioBuffer\<close> (one channel). The Web Audio attribute
  \<^verbatim>\<open>duration\<close> is the number of sample frames divided by the sample rate.
\<close>

record AudioBuffer =
  buffer_sampleRate :: nat
  buffer_samples :: "real list"

definition duration :: "AudioBuffer \<Rightarrow> real" where
  "duration b = real (length (buffer_samples b)) / real (buffer_sampleRate b)"

text \<open>
  An \<^verbatim>\<open>AudioBufferSourceNode\<close> after \<^verbatim>\<open>source.start(t)\<close>: its buffer and the time
  it was started at. \<^verbatim>\<open>start\<close> is the only operation the program calls on a source.
\<close>

record Source =
  source_buffer :: AudioBuffer
  source_startAt :: real

text \<open>The promise returned by \<^verbatim>\<open>ai.live.connect\<close>, by what awaiting it gives.\<close>

datatype SessionPromise = SessionFulfilled | SessionRejected

record FunctionResponse =
  response_id :: string
  response_name :: string
  response_result :: string

subsection \<open>The component's refs, state and the effects on the live session\<close>

text \<open>
  \<^verbatim>\<open>sourcesRef\<close> is a JavaScript \<^verbatim>\<open>Set\<close> of freshly created nodes: every
  \<^verbatim>\<open>add\<close> inserts a new element and iteration is in insertion order, so it is a list
  with the newest source last. \<^verbatim>\<open>toolResponses\<close> logs the calls of
  \<^verbatim>\<open>session.sendToolResponse\<close> (oldest first) and \<^verbatim>\<open>liveConnects\<close> counts the calls
  of \<^verbatim>\<open>ai.live.connect\<close>.
\<close>

record World =
  app :: AppState
  audioContextRef :: "AudioContext option"
  outAudioContextRef :: "AudioContext option"
  sessionPromiseRef :: "SessionPromise option"
  nextStartTimeRef :: real
  sourcesRef :: "Source list"
  streamRef :: "MediaStream option"
  scriptProcessorRef :: "ScriptProcessor option"
  toolResponses :: "FunctionResponse list"
  liveConnects :: nat

text \<open>The initial values of \<^verbatim>\<open>useState\<close> and \<^verbatim>\<open>useRef\<close> (lines 33-56).\<close>

definition initialState :: AppState where
  "initialState =
     \<lparr> isListening = False, isProcessing = False, currentCode = [],
       currentDescription = [], history = [], error = None,
       liveUserText = [], liveAiText = [], view = ViewCode, chatHistory = [],
       selectedImage = None, useThinking = False, useGrounding = GroundingNone \<rparr>"

definition initialWorld :: World where
  "initialWorld =
     \<lparr> app = initialState, audioContextRef = None, outAudioContextRef = None,
       sessionPromiseRef = None, nextStartTimeRef = 0, sourcesRef = [],
       streamRef = None, scriptProcessorRef = None, toolResponses = [],
       liveConnects = 0 \<rparr>"

subsection \<open>Inbound messages\<close>

record GenerateCodeArgs =
  args_description :: string
  args_language :: string

record FunctionCall =
  call_id :: string
  call_name :: string
  call_args :: GenerateCodeArgs

record Transcription =
  transcription_text :: "string option"

text \<open>
  A \<^verbatim>\<open>LiveServerMessage\<close>, by the four optional chains \<^verbatim>\<open>handleMessage\<close> reads:
  \<^verbatim>\<open>serverContent?.modelTurn?.parts[0]?.inlineData?.data\<close>,
  \<^verbatim>\<open>serverContent?.inputTranscription\<close>, \<^verbatim>\<open>serverContent?.outputTranscription\<close> and
  \<^verbatim>\<open>toolCall\<close> (its \<^verbatim>\<open>functionCalls\<close>).
\<close>

record LiveServerMessage =
  audioData :: "string option"
  inputTranscription :: "Transcription option"
  outputTranscription :: "Transcription option"
  toolCall :: "FunctionCall list option"

subsection \<open>What the environment answers\<close>

text \<open>
  The secondary endpoint \<^verbatim>\<open>ai.models.generateContent\<close> either answers with a
  response whose \<^verbatim>\<open>text\<close> may be undefined, or throws. The two readings of
  \<^verbatim>\<open>Date.now()\<close> at line 94 are in evaluation order: first the one turned into
  the id, then the timestamp.
\<close>

datatype JobResult = JobResponse "string option" | JobError

record JobEnv =
  job_result :: JobResult
  job_nowId :: int
  job_nowTimestamp :: int

text \<open>
  For one inbound message: the output context's \<^verbatim>\<open>currentTime\<close> at line 62, what
  \<^verbatim>\<open>decodeAudioData(decode(audioData), ctx, 24000, 1)\<close> gives (the helper is in
  \<^verbatim>\<open>utils/audioHelpers\<close>; \<open>None\<close> when it rejects), and the answers of the jobs the
  message's tool calls start, in order.
\<close>

record MsgEnv =
  env_currentTime :: real
  env_decoded :: "AudioBuffer option"
  env_jobs :: "JobEnv list"

section \<open>JavaScript helpers\<close>

text \<open>\<^verbatim>\<open>s || d\<close> on an optional string: undefined and the empty string are falsy.\<close>

definition orElse :: "string option \<Rightarrow> string \<Rightarrow> string" where
  "orElse s d = (case s of None \<Rightarrow> d | Some t \<Rightarrow> if t = [] then d else t)"

text \<open>\<^verbatim>\<open>Number.prototype.toString()\<close> on an integer: its decimal digits.\<close>

definition digitChar :: "nat \<Rightarrow> char" where
  "digitChar n = char_of (48 + n)"

fun natToString :: "nat \<Rightarrow> string" where
  "natToString n =
     (if n < 10 then [digitChar n] else natToString (n div 10) @ [digitChar (n mod 10)])"

declare natToString.simps [simp del]

definition toString :: "int \<Rightarrow> string" where
  "toString i = (if i < 0 then CHR ''-'' # natToString (nat (- i)) else natToString (nat i))"

section \<open>handleMessage (App.tsx, lines 58-116)\<close>

text \<open>
  An async handler either runs to its end or rejects; the promise it returns is dropped
  by the caller, so in both cases what remains is the world it leaves behind.
\<close>

datatype Outcome = Resolved World | Threw World

fun worldOf :: "Outcome \<Rightarrow> World" where
  "worldOf (Resolved w) = w"
| "worldOf (Threw w) = w"

text \<open>
  Lines 59-70, in the two halves the \<^verbatim>\<open>await\<close> of line 63 separates. Before it the
  cursor is raised to the context's clock (line 62). After it the source is started at
  the cursor, the cursor is advanced by the buffer's duration and the source is added
  to the set (lines 64-69).
\<close>

definition audioRaise :: "real \<Rightarrow> World \<Rightarrow> World" where
  "audioRaise now w = w\<lparr>nextStartTimeRef := max (nextStartTimeRef w) now\<rparr>"

definition audioStart :: "AudioBuffer \<Rightarrow> World \<Rightarrow> World" where
  "audioStart buffer w =
     w\<lparr>nextStartTimeRef := nextStartTimeRef w + duration buffer,
       sourcesRef := sourcesRef w @
         [\<lparr>source_buffer = buffer, source_startAt = nextStartTimeRef w\<rparr>]\<rparr>"

text \<open>
  The block as one step: the helper \<^verbatim>\<open>decodeAudioData\<close> does no input or output,
  so the second half runs before the handler of a later message starts. A rejected
  decode ends the handler after the cursor was raised.
\<close>

definition handleAudio :: "MsgEnv \<Rightarrow> LiveServerMessage \<Rightarrow> World \<Rightarrow> Outcome" where
  "handleAudio e m w =
     (case audioData m of
        None \<Rightarrow> Resolved w
      | Some d \<Rightarrow>
          if d \<noteq> [] \<and> outAudioContextRef w \<noteq> None then
            (let w1 = audioRaise (env_currentTime e) w
             in case env_decoded e of
                  None \<Rightarrow> Threw w1
                | Some buffer \<Rightarrow> Resolved (audioStart buffer w1))
          else Resolved w)"

text \<open>Lines 72-77: each transcription present replaces the stored text of its side.\<close>

definition handleTranscripts :: "LiveServerMessage \<Rightarrow> World \<Rightarrow> World" where
  "handleTranscripts m w =
     (let w1 = (case inputTranscription m of
                  None \<Rightarrow> w
                | Some t \<Rightarrow> w\<lparr>app := (app w)\<lparr>liveUserText := orElse (transcription_text t) []\<rparr>\<rparr>)
      in case outputTranscription m of
           None \<Rightarrow> w1
         | Some t \<Rightarrow> w1\<lparr>app := (app w1)\<lparr>liveAiText := orElse (transcription_text t) []\<rparr>\<rparr>)"

text \<open>
  Lines 82-83: what a \<^verbatim>\<open>generate_code\<close> call does before it awaits the secondary
  endpoint.
\<close>

definition toolCallBegin :: "FunctionCall \<Rightarrow> World \<Rightarrow> World" where
  "toolCallBegin fc w =
     w\<lparr>app := (app w)\<lparr>isProcessing := True,
                        currentDescription := args_description (call_args fc)\<rparr>\<rparr>"

text \<open>Line 111, the \<^verbatim>\<open>catch\<close> block.\<close>

definition kernelOverload :: "World \<Rightarrow> World" where
  "kernelOverload w = w\<lparr>app := (app w)\<lparr>isProcessing := False, error := Some ''Kernel overload''\<rparr>\<rparr>"

text \<open>
  Lines 85-112: what the call does once the endpoint has answered, in the world as it is
  then. Everything is inside the \<^verbatim>\<open>try\<close>, so a failed job and a rejected session
  promise both end in the \<^verbatim>\<open>catch\<close> block.
\<close>

definition toolCallFinish :: "JobEnv \<Rightarrow> FunctionCall \<Rightarrow> World \<Rightarrow> World" where
  "toolCallFinish e fc w =
     (case job_result e of
        JobError \<Rightarrow> kernelOverload w
      | JobResponse txt \<Rightarrow>
          (let code = orElse txt ''// Synthesis failed'';
               newSnippet =
                 \<lparr> snippet_id = toString (job_nowId e),
                   snippet_language = args_language (call_args fc),
                   snippet_code = code,
                   snippet_description = args_description (call_args fc),
                   snippet_timestamp = job_nowTimestamp e \<rparr>;
               w1 = w\<lparr>app := (app w)\<lparr>currentCode := code, isProcessing := False,
                                      history := take 15 (newSnippet # history (app w)),
                                      view := ViewCode\<rparr>\<rparr>
           in case sessionPromiseRef w1 of
                None \<Rightarrow> w1
              | Some SessionRejected \<Rightarrow> kernelOverload w1
              | Some SessionFulfilled \<Rightarrow>
                  w1\<lparr>toolResponses := toolResponses w1 @
                       [\<lparr> response_id = call_id fc, response_name = call_name fc,
                          response_result = ''Compiled.'' \<rparr>]\<rparr>))"

text \<open>One iteration of the loop body for a call whose job answers before anything else happens.\<close>

definition handleToolCall :: "JobEnv \<Rightarrow> FunctionCall \<Rightarrow> World \<Rightarrow> World" where
  "handleToolCall e fc w = toolCallFinish e fc (toolCallBegin fc w)"

text \<open>
  Lines 80-114, the loop over \<^verbatim>\<open>functionCalls\<close>. Calls of another name are skipped.
  Each \<^verbatim>\<open>generate_code\<close> call takes the next job answer; when none is left the job
  has not answered and the handler stays suspended at its \<^verbatim>\<open>await\<close>.
\<close>

fun handleToolCalls :: "JobEnv list \<Rightarrow> FunctionCall list \<Rightarrow> World \<Rightarrow> World" where
  "handleToolCalls es [] w = w"
| "handleToolCalls es (fc # fcs) w =
     (if call_name fc = ''generate_code'' then
        (case es of
           [] \<Rightarrow> toolCallBegin fc w
         | e # es' \<Rightarrow> handleToolCalls es' fcs (handleToolCall e fc w))
      else handleToolCalls es fcs w)"

definition handleMessage :: "MsgEnv \<Rightarrow> LiveServerMessage \<Rightarrow> World \<Rightarrow> Outcome" where
  "handleMessage e m w =
     (case handleAudio e m w of
        Threw w' \<Rightarrow> Threw w'
      | Resolved w1 \<Rightarrow>
          (let w2 = handleTranscripts m w1
           in case toolCall m of
                None \<Rightarrow> Resolved w2
              | Some fcs \<Rightarrow> Resolved (handleToolCalls (env_jobs e) fcs w2)))"

text \<open>
  Inbound messages handled one after the other, in arrival order, each with the answers
  its environment gives.
\<close>

fun receive :: "(MsgEnv \<times> LiveServerMessage) list \<Rightarrow> World \<Rightarrow> World" where
  "receive [] w = w"
| "receive (ev # evs) w = receive evs (worldOf (handleMessage (fst ev) (snd ev) w))"

section \<open>startSession and stopSession (App.tsx, lines 118-168)\<close>

text \<open>
  Where the \<^verbatim>\<open>try\<close> block of \<^verbatim>\<open>startSession\<close> can leave for the \<^verbatim>\<open>catch\<close>:
  \<^verbatim>\<open>getUserMedia\<close> rejecting (line 120), creating or resuming the audio contexts
  (lines 122-125), and setting up the connection (lines 129-154).
\<close>

datatype StartFailure = GetUserMediaRejected | AudioContextFailed | ConnectFailed

record StartEnv =
  start_failure :: "StartFailure option"
  start_session :: SessionPromise

definition micDenied :: "World \<Rightarrow> World" where
  "micDenied w = w\<lparr>app := (app w)\<lparr>error := Some ''Microphone permission denied''\<rparr>\<rparr>"

definition startSession :: "StartEnv \<Rightarrow> World \<Rightarrow> World" where
  "startSession e w =
     (if start_failure e = Some GetUserMediaRejected then micDenied w
      else
        (let w1 = w\<lparr>streamRef := Some \<lparr>stream_tracksStopped = False\<rparr>\<rparr>
         in if start_failure e = Some AudioContextFailed then micDenied w1
            else
              (let w2 = w1\<lparr>audioContextRef := Some \<lparr>ctx_sampleRate = 16000, ctx_closed = False\<rparr>,
                           outAudioContextRef := Some \<lparr>ctx_sampleRate = 24000, ctx_closed = False\<rparr>\<rparr>
               in if start_failure e = Some ConnectFailed then micDenied w2
                  else
                    (let w3 = w2\<lparr>liveConnects := Suc (liveConnects w2),
                                 sessionPromiseRef := Some (start_session e)\<rparr>
                     in w3\<lparr>app := (app w3)\<lparr>isListening := True, error := None\<rparr>\<rparr>))))"

text \<open>The \<^verbatim>\<open>onopen\<close> and \<^verbatim>\<open>onclose\<close> callbacks of the connection (lines 141-152).\<close>

definition onopen :: "World \<Rightarrow> World" where
  "onopen w =
     w\<lparr>scriptProcessorRef := Some \<lparr>processor_bufferSize = 4096, processor_connected = True\<rparr>\<rparr>"

definition onclose :: "World \<Rightarrow> World" where
  "onclose w = w\<lparr>app := (app w)\<lparr>isListening := False\<rparr>\<rparr>"

text \<open>Lines 162-168. Each \<^verbatim>\<open>?.\<close> acts on the object held by the ref, if any.\<close>

definition stopSession :: "World \<Rightarrow> World" where
  "stopSession w =
     (let w1 = w\<lparr>scriptProcessorRef :=
                   map_option (\<lambda>p. p\<lparr>processor_connected := False\<rparr>) (scriptProcessorRef w)\<rparr>;
          w2 = w1\<lparr>streamRef :=
                    map_option (\<lambda>s. s\<lparr>stream_tracksStopped := True\<rparr>) (streamRef w1)\<rparr>;
          w3 = w2\<lparr>audioContextRef :=
                    map_option (\<lambda>c. c\<lparr>ctx_closed := True\<rparr>) (audioContextRef w2)\<rparr>;
          w4 = w3\<lparr>outAudioContextRef :=
                    map_option (\<lambda>c. c\<lparr>ctx_closed := True\<rparr>) (outAudioContextRef w3)\<rparr>
      in w4\<lparr>app := (app w4)\<lparr>isListening := False\<rparr>\<rparr>)"

section \<open>Notions the properties are stated with\<close>

subsection \<open>Playback schedule\<close>

text \<open>When a started source finishes playing.\<close>

definition sourceEnd :: "Source \<Rightarrow> real" where
  "sourceEnd s = source_startAt s + duration (source_buffer s)"

text \<open>No source starts before the one scheduled before it has ended.\<close>

fun noOverlap :: "Source list \<Rightarrow> bool" where
  "noOverlap [] = True"
| "noOverlap [s] = True"
| "noOverlap (s # t # ss) = (sourceEnd s \<le> source_startAt t \<and> noOverlap (t # ss))"

text \<open>Every source starts exactly when the one scheduled before it ends.\<close>

fun backToBack :: "Source list \<Rightarrow> bool" where
  "backToBack [] = True"
| "backToBack [s] = True"
| "backToBack (s # t # ss) = (source_startAt t = sourceEnd s \<and> backToBack (t # ss))"

text \<open>The sources added to the set between an earlier world and a later one.\<close>

definition scheduledSince :: "World \<Rightarrow> World \<Rightarrow> Source list" where
  "scheduledSince w w' = drop (length (sourcesRef w)) (sourcesRef w')"

text \<open>
  The buffer a message brings to the scheduler, if any: the guard of line 60 holds and the
  payload decodes.
\<close>

definition schedules :: "World \<Rightarrow> MsgEnv \<Rightarrow> LiveServerMessage \<Rightarrow> AudioBuffer list" where
  "schedules w e m =
     (case audioData m of
        None \<Rightarrow> []
      | Some d \<Rightarrow>
          if d \<noteq> [] \<and> outAudioContextRef w \<noteq> None then
            (case env_decoded e of None \<Rightarrow> [] | Some b \<Rightarrow> [b])
          else [])"

text \<open>The decoded buffers of a sequence of messages, in arrival order.\<close>

definition arrivedBuffers ::
  "World \<Rightarrow> (MsgEnv \<times> LiveServerMessage) list \<Rightarrow> AudioBuffer list" where
  "arrivedBuffers w evs = concat (map (\<lambda>ev. schedules w (fst ev) (snd ev)) evs)"

text \<open>
  Back-pressure: every message arrives while the context's clock has not yet passed the
  cursor.
\<close>

fun backPressured :: "(MsgEnv \<times> LiveServerMessage) list \<Rightarrow> World \<Rightarrow> bool" where
  "backPressured [] w = True"
| "backPressured (ev # evs) w =
     (env_currentTime (fst ev) \<le> nextStartTimeRef w \<and>
      backPressured evs (worldOf (handleMessage (fst ev) (snd ev) w)))"

text \<open>
  The two halves of the audio block as separate steps, for handlers whose halves
  interleave: any sequence of cursor raises and source starts.
\<close>

datatype AudioStep = Raise real | Start AudioBuffer

fun audioStep :: "AudioStep \<Rightarrow> World \<Rightarrow> World" where
  "audioStep (Raise now) w = audioRaise now w"
| "audioStep (Start buffer) w = audioStart buffer w"

fun audioSteps :: "AudioStep list \<Rightarrow> World \<Rightarrow> World" where
  "audioSteps [] w = w"
| "audioSteps (x # xs) w = audioSteps xs (audioStep x w)"

subsection \<open>Transcript channels\<close>

datatype Channel = LocalSpeaker | RemoteSpeaker

fun otherChannel :: "Channel \<Rightarrow> Channel" where
  "otherChannel LocalSpeaker = RemoteSpeaker"
| "otherChannel RemoteSpeaker = LocalSpeaker"

fun channelText :: "Channel \<Rightarrow> World \<Rightarrow> string" where
  "channelText LocalSpeaker w = liveUserText (app w)"
| "channelText RemoteSpeaker w = liveAiText (app w)"

text \<open>A message that carries a partial transcript for one channel and nothing else.\<close>

fun partialTranscript :: "Channel \<Rightarrow> string option \<Rightarrow> LiveServerMessage" where
  "partialTranscript LocalSpeaker p =
     \<lparr> audioData = None, inputTranscription = Some \<lparr>transcription_text = p\<rparr>,
       outputTranscription = None, toolCall = None \<rparr>"
| "partialTranscript RemoteSpeaker p =
     \<lparr> audioData = None, inputTranscription = None,
       outputTranscription = Some \<lparr>transcription_text = p\<rparr>, toolCall = None \<rparr>"

subsection \<open>Concrete sessions used as test inputs\<close>

definition startOk :: StartEnv where
  "startOk = \<lparr> start_failure = None, start_session = SessionFulfilled \<rparr>"

definition startDenied :: StartEnv where
  "startDenied = \<lparr> start_failure = Some GetUserMediaRejected, start_session = SessionFulfilled \<rparr>"

text \<open>A live session: started from the initial world, connection open.\<close>

definition liveWorld :: World where
  "liveWorld = onopen (startSession startOk initialWorld)"

text \<open>Mono buffers at 24 kHz of the given number of sample frames.\<close>

definition silence :: "nat \<Rightarrow> AudioBuffer" where
  "silence n = \<lparr> buffer_sampleRate = 24000, buffer_samples = replicate n 0 \<rparr>"

definition audioMessage :: LiveServerMessage where
  "audioMessage =
     \<lparr> audioData = Some ''AAAA'', inputTranscription = None,
       outputTranscription = None, toolCall = None \<rparr>"

definition arrival :: "real \<Rightarrow> nat \<Rightarrow> MsgEnv \<times> LiveServerMessage" where
  "arrival now n =
     (\<lparr> env_currentTime = now, env_decoded = Some (silence n), env_jobs = [] \<rparr>, audioMessage)"

text \<open>The invocation and the job answers of the round-trip example.\<close>

definition reverseCall :: FunctionCall where
  "reverseCall =
     \<lparr> call_id = ''abc'', call_name = ''generate_code'',
       call_args = \<lparr> args_description = ''reverse a string'', args_language = ''python'' \<rparr> \<rparr>"

definition reverseJob :: JobEnv where
  "reverseJob =
     \<lparr> job_result = JobResponse (Some ''def rev(s): return s[::-1]''),
       job_nowId = 1700000000000, job_nowTimestamp = 1700000000001 \<rparr>"

definition failedJob :: JobEnv where
  "failedJob = \<lparr> job_result = JobError, job_nowId = 1700000000000,
                 job_nowTimestamp = 1700000000001 \<rparr>"

section \<open>The tool and transcript paths leave the scheduler alone\<close>

lemma handleTranscripts_frame:
  "nextStartTimeRef (handleTranscripts m w) = nextStartTimeRef w"
  "sourcesRef (handleTranscripts m w) = sourcesRef w"
  "outAudioContextRef (handleTranscripts m w) = outAudioContextRef w"
  by (simp_all add: handleTranscripts_def Let_def split: option.splits)

lemma toolCallBegin_frame:
  "nextStartTimeRef (toolCallBegin fc w) = nextStartTimeRef w"
  "sourcesRef (toolCallBegin fc w) = sourcesRef w"
  "outAudioContextRef (toolCallBegin fc w) = outAudioContextRef w"
  by (simp_all add: toolCallBegin_def)

lemma toolCallFinish_frame:
  "nextStartTimeRef (toolCallFinish e fc w) = nextStartTimeRef w"
  "sourcesRef (toolCallFinish e fc w) = sourcesRef w"
  "outAudioContextRef (toolCallFinish e fc w) = outAudioContextRef w"
  by (simp_all add: toolCallFinish_def Let_def kernelOverload_def
      split: JobResult.split option.split SessionPromise.split)

lemma handleToolCall_frame:
  "nextStartTimeRef (handleToolCall e fc w) = nextStartTimeRef w"
  "sourcesRef (handleToolCall e fc w) = sourcesRef w"
  "outAudioContextRef (handleToolCall e fc w) = outAudioContextRef w"
  by (simp_all add: handleToolCall_def toolCallFinish_frame toolCallBegin_frame)

lemma handleToolCalls_frame:
  "nextStartTimeRef (handleToolCalls es fcs w) = nextStartTimeRef w \<and>
   sourcesRef (handleToolCalls es fcs w) = sourcesRef w \<and>
   outAudioContextRef (handleToolCalls es fcs w) = outAudioContextRef w"
proof (induction fcs arbitrary: es w)
  case Nil
  show ?case by simp
next
  case (Cons fc fcs)
  show ?case
  proof (cases "call_name fc = ''generate_code''")
    case False
    then show ?thesis using Cons.IH [of es w] by simp
  next
    case True
    show ?thesis
    proof (cases es)
      case Nil
      then show ?thesis using True by (simp add: toolCallBegin_frame)
    next
      case (Cons e es')
      then show ?thesis
        using True Cons.IH [of es' "handleToolCall e fc w"]
        by (simp add: handleToolCall_frame)
    qed
  qed
qed

lemma handleMessage_scheduler:
  "nextStartTimeRef (worldOf (handleMessage e m w)) = nextStartTimeRef (worldOf (handleAudio e m w))"
  "sourcesRef (worldOf (handleMessage e m w)) = sourcesRef (worldOf (handleAudio e m w))"
  "outAudioContextRef (worldOf (handleMessage e m w)) = outAudioContextRef (worldOf (handleAudio e m w))"
  by (simp_all add: handleMessage_def Let_def handleToolCalls_frame handleTranscripts_frame
      split: Outcome.split option.split)

section \<open>One scheduling step\<close>

lemma duration_nonneg: "0 \<le> duration b"
  by (simp add: duration_def)

lemma schedules_cases: "schedules w e m = [] \<or> (\<exists>b. schedules w e m = [b])"
  by (simp add: schedules_def split: option.split)

lemma schedules_same_context:
  "outAudioContextRef w' = outAudioContextRef w \<Longrightarrow> schedules w' e m = schedules w e m"
  by (simp add: schedules_def split: option.split)

lemma handleAudio_step:
  "sourcesRef (worldOf (handleAudio e m w)) =
     sourcesRef w @ map (\<lambda>b. \<lparr>source_buffer = b,
                               source_startAt = max (nextStartTimeRef w) (env_currentTime e)\<rparr>)
                        (schedules w e m)"
  "outAudioContextRef (worldOf (handleAudio e m w)) = outAudioContextRef w"
  by (simp_all add: handleAudio_def audioRaise_def audioStart_def schedules_def Let_def split: option.split)

lemma handleAudio_cursor_scheduled:
  "schedules w e m = b # bs \<Longrightarrow>
     nextStartTimeRef (worldOf (handleAudio e m w)) =
       max (nextStartTimeRef w) (env_currentTime e) + duration b"
  by (auto simp add: handleAudio_def audioRaise_def audioStart_def schedules_def Let_def split: option.splits if_splits)

lemma handleAudio_cursor_idle:
  "schedules w e m = [] \<Longrightarrow>
     nextStartTimeRef (worldOf (handleAudio e m w)) = nextStartTimeRef w \<or>
     nextStartTimeRef (worldOf (handleAudio e m w)) = max (nextStartTimeRef w) (env_currentTime e)"
  by (auto simp add: handleAudio_def audioRaise_def audioStart_def schedules_def Let_def split: option.splits if_splits)

lemma handleAudio_cursor_mono:
  "nextStartTimeRef w \<le> nextStartTimeRef (worldOf (handleAudio e m w))"
proof (cases "schedules w e m")
  case Nil
  then show ?thesis using handleAudio_cursor_idle [of w e m] by auto
next
  case (Cons b bs)
  then show ?thesis
    using handleAudio_cursor_scheduled [of w e m b bs] duration_nonneg [of b] by simp
qed

lemma handleMessage_sources:
  "sourcesRef (worldOf (handleMessage e m w)) =
     sourcesRef w @ map (\<lambda>b. \<lparr>source_buffer = b,
                               source_startAt = max (nextStartTimeRef w) (env_currentTime e)\<rparr>)
                        (schedules w e m)"
  by (simp add: handleMessage_scheduler handleAudio_step)

lemma handleMessage_context:
  "outAudioContextRef (worldOf (handleMessage e m w)) = outAudioContextRef w"
  by (simp add: handleMessage_scheduler handleAudio_step)

lemma handleMessage_cursor_scheduled:
  "schedules w e m = b # bs \<Longrightarrow>
     nextStartTimeRef (worldOf (handleMessage e m w)) =
       max (nextStartTimeRef w) (env_currentTime e) + duration b"
  by (simp add: handleMessage_scheduler handleAudio_cursor_scheduled)

lemma handleMessage_cursor_idle:
  "schedules w e m = [] \<Longrightarrow>
     nextStartTimeRef (worldOf (handleMessage e m w)) = nextStartTimeRef w \<or>
     nextStartTimeRef (worldOf (handleMessage e m w)) = max (nextStartTimeRef w) (env_currentTime e)"
  by (simp add: handleMessage_scheduler handleAudio_cursor_idle)

lemma handleMessage_cursor_mono:
  "nextStartTimeRef w \<le> nextStartTimeRef (worldOf (handleMessage e m w))"
  by (simp add: handleMessage_scheduler handleAudio_cursor_mono)

section \<open>A run of messages\<close>

lemma noOverlap_Cons:
  "noOverlap ss \<Longrightarrow> \<forall>t\<in>set ss. sourceEnd s \<le> source_startAt t \<Longrightarrow> noOverlap (s # ss)"
  by (cases ss) simp_all

lemma backToBack_Cons:
  "backToBack ss \<Longrightarrow> ss = [] \<or> source_startAt (hd ss) = sourceEnd s \<Longrightarrow> backToBack (s # ss)"
  by (cases ss) simp_all

lemma receive_schedule:
  "\<exists>ss. sourcesRef (receive evs w) = sourcesRef w @ ss \<and>
        noOverlap ss \<and> sorted (map source_startAt ss) \<and>
        (\<forall>s\<in>set ss. nextStartTimeRef w \<le> source_startAt s) \<and>
        map source_buffer ss = arrivedBuffers w evs \<and>
        nextStartTimeRef w \<le> nextStartTimeRef (receive evs w)"
proof (induction evs arbitrary: w)
  case Nil
  show ?case by (simp add: arrivedBuffers_def)
next
  case (Cons ev evs)
  obtain e m where ev: "ev = (e, m)" by (cases ev)
  define w1 where "w1 = worldOf (handleMessage e m w)"
  define t where "t = max (nextStartTimeRef w) (env_currentTime e)"
  from Cons.IH [of w1] obtain ss where
    src: "sourcesRef (receive evs w1) = sourcesRef w1 @ ss" and
    no: "noOverlap ss" and so: "sorted (map source_startAt ss)" and
    lb: "\<forall>s\<in>set ss. nextStartTimeRef w1 \<le> source_startAt s" and
    bufs: "map source_buffer ss = arrivedBuffers w1 evs" and
    mono: "nextStartTimeRef w1 \<le> nextStartTimeRef (receive evs w1)"
    by blast
  have ctx: "outAudioContextRef w1 = outAudioContextRef w"
    by (simp add: w1_def handleMessage_context)
  have arr: "arrivedBuffers w1 evs = arrivedBuffers w evs"
    by (simp add: arrivedBuffers_def schedules_same_context [OF ctx])
  have step: "nextStartTimeRef w \<le> nextStartTimeRef w1"
    by (simp add: w1_def handleMessage_cursor_mono)
  have rcv: "receive (ev # evs) w = receive evs w1"
    by (simp add: ev w1_def)
  show ?case
  proof (cases "schedules w e m")
    case Nil
    then have "sourcesRef w1 = sourcesRef w"
      by (simp add: w1_def handleMessage_sources)
    with src no so lb bufs mono step arr Nil show ?thesis
      unfolding rcv
      by (intro exI [of _ ss]) (auto simp add: arrivedBuffers_def ev)
  next
    case (Cons b bs)
    with schedules_cases [of w e m] have one: "schedules w e m = [b]" by auto
    let ?s = "\<lparr>source_buffer = b, source_startAt = t\<rparr>"
    have s1: "sourcesRef w1 = sourcesRef w @ [?s]"
      by (simp add: w1_def handleMessage_sources one t_def)
    have c1: "nextStartTimeRef w1 = t + duration b"
      using handleMessage_cursor_scheduled [OF Cons] by (simp add: w1_def t_def)
    have e1: "sourceEnd ?s = nextStartTimeRef w1"
      by (simp add: sourceEnd_def c1)
    have t_lb: "nextStartTimeRef w \<le> t" by (simp add: t_def)
    have t_le: "t \<le> nextStartTimeRef w1"
      using duration_nonneg [of b] by (simp add: c1)
    have "sourcesRef (receive (ev # evs) w) = sourcesRef w @ (?s # ss)"
      unfolding rcv by (simp add: src s1)
    moreover have "noOverlap (?s # ss)"
      using no lb e1 by (intro noOverlap_Cons) auto
    moreover have "sorted (map source_startAt (?s # ss))"
      using so lb t_le by auto
    moreover have "\<forall>s\<in>set (?s # ss). nextStartTimeRef w \<le> source_startAt s"
      using lb t_lb step by auto
    moreover have "map source_buffer (?s # ss) = arrivedBuffers w (ev # evs)"
      using bufs arr by (simp add: arrivedBuffers_def ev one)
    moreover have "nextStartTimeRef w \<le> nextStartTimeRef (receive (ev # evs) w)"
      unfolding rcv using mono step by simp
    ultimately show ?thesis by blast
  qed
qed

lemma receive_backPressured:
  "backPressured evs w \<Longrightarrow>
   \<exists>ss. sourcesRef (receive evs w) = sourcesRef w @ ss \<and> backToBack ss \<and>
        (ss = [] \<or> source_startAt (hd ss) = nextStartTimeRef w)"
proof (induction evs arbitrary: w)
  case Nil
  show ?case by simp
next
  case (Cons ev evs)
  obtain e m where ev: "ev = (e, m)" by (cases ev)
  define w1 where "w1 = worldOf (handleMessage e m w)"
  from Cons.prems have now: "env_currentTime e \<le> nextStartTimeRef w"
    and rest: "backPressured evs w1"
    by (simp_all add: ev w1_def)
  from Cons.IH [OF rest] obtain ss where
    src: "sourcesRef (receive evs w1) = sourcesRef w1 @ ss" and
    bb: "backToBack ss" and
    first: "ss = [] \<or> source_startAt (hd ss) = nextStartTimeRef w1"
    by blast
  have rcv: "receive (ev # evs) w = receive evs w1"
    by (simp add: ev w1_def)
  from now have t: "max (nextStartTimeRef w) (env_currentTime e) = nextStartTimeRef w"
    by simp
  show ?case
  proof (cases "schedules w e m")
    case Nil
    then have s1: "sourcesRef w1 = sourcesRef w"
      by (simp add: w1_def handleMessage_sources)
    have "nextStartTimeRef w1 = nextStartTimeRef w"
      using handleMessage_cursor_idle [OF Nil] t by (auto simp add: w1_def)
    with src bb first s1 show ?thesis
      unfolding rcv by (intro exI [of _ ss]) simp
  next
    case (Cons b bs)
    with schedules_cases [of w e m] have one: "schedules w e m = [b]" by auto
    let ?s = "\<lparr>source_buffer = b, source_startAt = nextStartTimeRef w\<rparr>"
    have s1: "sourcesRef w1 = sourcesRef w @ [?s]"
      by (simp add: w1_def handleMessage_sources one t)
    have c1: "nextStartTimeRef w1 = sourceEnd ?s"
      using handleMessage_cursor_scheduled [OF Cons] by (simp add: w1_def t sourceEnd_def)
    have "sourcesRef (receive (ev # evs) w) = sourcesRef w @ (?s # ss)"
      unfolding rcv by (simp add: src s1)
    moreover have "backToBack (?s # ss)"
      using bb first c1 by (intro backToBack_Cons) auto
    ultimately show ?thesis by (intro exI [of _ "?s # ss"]) simp
  qed
qed

text \<open>
  The schedule does not depend on the audio block being one step: however the halves of
  several handlers interleave, the sources started do not overlap and their start times
  are sorted.
\<close>

lemma audioSteps_schedule:
  "\<exists>ss. sourcesRef (audioSteps xs w) = sourcesRef w @ ss \<and>
        noOverlap ss \<and> sorted (map source_startAt ss) \<and>
        (\<forall>s\<in>set ss. nextStartTimeRef w \<le> source_startAt s) \<and>
        nextStartTimeRef w \<le> nextStartTimeRef (audioSteps xs w)"
proof (induction xs arbitrary: w)
  case Nil
  show ?case by simp
next
  case (Cons x xs)
  define w1 where "w1 = audioStep x w"
  from Cons.IH [of w1] obtain ss where
    src: "sourcesRef (audioSteps xs w1) = sourcesRef w1 @ ss" and
    no: "noOverlap ss" and so: "sorted (map source_startAt ss)" and
    lb: "\<forall>s\<in>set ss. nextStartTimeRef w1 \<le> source_startAt s" and
    mono: "nextStartTimeRef w1 \<le> nextStartTimeRef (audioSteps xs w1)"
    by blast
  have run: "audioSteps (x # xs) w = audioSteps xs w1"
    by (simp add: w1_def)
  show ?case
  proof (cases x)
    case (Raise now)
    then have "sourcesRef w1 = sourcesRef w" and "nextStartTimeRef w \<le> nextStartTimeRef w1"
      by (simp_all add: w1_def audioRaise_def)
    with src no so lb mono show ?thesis
      unfolding run by (intro exI [of _ ss]) auto
  next
    case (Start b)
    let ?s = "\<lparr>source_buffer = b, source_startAt = nextStartTimeRef w\<rparr>"
    have s1: "sourcesRef w1 = sourcesRef w @ [?s]"
      and c1: "nextStartTimeRef w1 = sourceEnd ?s"
      by (simp_all add: w1_def Start audioStart_def sourceEnd_def)
    have le: "nextStartTimeRef w \<le> nextStartTimeRef w1"
      using duration_nonneg [of b] by (simp add: c1 sourceEnd_def)
    have "sourcesRef (audioSteps (x # xs) w) = sourcesRef w @ (?s # ss)"
      unfolding run by (simp add: src s1)
    moreover have "noOverlap (?s # ss)"
      using no lb c1 by (intro noOverlap_Cons) auto
    moreover have "sorted (map source_startAt (?s # ss))"
      using so lb le by auto
    moreover have "\<forall>s\<in>set (?s # ss). nextStartTimeRef w \<le> source_startAt s"
      using lb le by auto
    moreover have "nextStartTimeRef w \<le> nextStartTimeRef (audioSteps (x # xs) w)"
      unfolding run using mono le by simp
    ultimately show ?thesis by blast
  qed
qed

lemma audioSteps_noOverlap:
  "noOverlap (scheduledSince w (audioSteps xs w)) \<and>
   sorted (map source_startAt (scheduledSince w (audioSteps xs w)))"
proof -
  obtain ss where "sourcesRef (audioSteps xs w) = sourcesRef w @ ss"
    and "noOverlap ss" and "sorted (map source_startAt ss)"
    using audioSteps_schedule [of xs w] by blast
  then show ?thesis by (simp add: scheduledSince_def)
qed

section \<open>Evaluating the concrete sessions\<close>

lemma duration_silence: "duration (silence n) = real n / 24000"
  by (simp add: duration_def silence_def)

lemmas run_defs =
  receive.simps handleMessage_def handleAudio_def audioRaise_def audioStart_def
  handleTranscripts_def Let_def
  arrival_def audioMessage_def liveWorld_def onopen_def startSession_def startOk_def
  initialWorld_def scheduledSince_def duration_silence sourceEnd_def

lemmas tool_defs =
  handleToolCall_def toolCallBegin_def toolCallFinish_def kernelOverload_def Let_def
  orElse_def reverseCall_def reverseJob_def failedJob_def liveWorld_def onopen_def
  startSession_def startOk_def initialWorld_def stopSession_def

section \<open>Playback scheduling\<close>

text \<open>
  C1 (playback monotonicity). Whatever messages arrive, at whatever clock readings, the
  sources scheduled by them do not overlap (each starts no earlier than the end of the
  one before), their start times are non-decreasing, their buffers are the decoded
  buffers in arrival order, and the cursor never moves back. A message whose payload
  decodes to a buffer \<open>b\<close> while the output context exists schedules exactly one
  source, at \<open>max nextStartTime now\<close>, and leaves the cursor at that time plus the
  duration of \<open>b\<close>.
\<close>

theorem playback_monotonic:
  "noOverlap (scheduledSince w (receive evs w)) \<and>
   sorted (map source_startAt (scheduledSince w (receive evs w))) \<and>
   map source_buffer (scheduledSince w (receive evs w)) = arrivedBuffers w evs \<and>
   nextStartTimeRef w \<le> nextStartTimeRef (receive evs w) \<and>
   (audioData m = Some d \<and> d \<noteq> [] \<and> outAudioContextRef w = Some c \<and> env_decoded e = Some b \<longrightarrow>
      scheduledSince w (worldOf (handleMessage e m w)) =
        [\<lparr>source_buffer = b, source_startAt = max (nextStartTimeRef w) (env_currentTime e)\<rparr>] \<and>
      nextStartTimeRef (worldOf (handleMessage e m w)) =
        max (nextStartTimeRef w) (env_currentTime e) + duration b)"
proof -
  obtain ss where
    src: "sourcesRef (receive evs w) = sourcesRef w @ ss" and
    rest: "noOverlap ss" "sorted (map source_startAt ss)"
      "map source_buffer ss = arrivedBuffers w evs"
      "nextStartTimeRef w \<le> nextStartTimeRef (receive evs w)"
    using receive_schedule [of evs w] by blast
  have run: "scheduledSince w (receive evs w) = ss"
    by (simp add: scheduledSince_def src)
  have step: "scheduledSince w (worldOf (handleMessage e m w)) =
        [\<lparr>source_buffer = b, source_startAt = max (nextStartTimeRef w) (env_currentTime e)\<rparr>] \<and>
      nextStartTimeRef (worldOf (handleMessage e m w)) =
        max (nextStartTimeRef w) (env_currentTime e) + duration b"
    if "audioData m = Some d" "d \<noteq> []" "outAudioContextRef w = Some c" "env_decoded e = Some b"
  proof -
    from that have one: "schedules w e m = [b]"
      by (simp add: schedules_def)
    then show ?thesis
      using handleMessage_cursor_scheduled [of w e m b "[]"]
      by (simp add: scheduledSince_def handleMessage_sources)
  qed
  from rest step show ?thesis unfolding run by blast
qed

text \<open>
  Three buffers of 2 s, 1 s and 0.5 s arriving at 0.5 s, 0.6 s and 10 s in a live session
  are started at 0.5 s, 2.5 s and 10 s.
\<close>

theorem playback_monotonic_witness:
  "noOverlap (scheduledSince liveWorld
      (receive [arrival (1/2) 48000, arrival (3/5) 24000, arrival 10 12000] liveWorld)) \<and>
   map source_startAt (scheduledSince liveWorld
      (receive [arrival (1/2) 48000, arrival (3/5) 24000, arrival 10 12000] liveWorld)) =
     [1/2, 5/2, 10] \<and>
   scheduledSince liveWorld (worldOf (handleMessage (fst (arrival (1/2) 48000)) audioMessage liveWorld)) =
     [\<lparr>source_buffer = silence 48000, source_startAt = 1/2\<rparr>] \<and>
   nextStartTimeRef (worldOf (handleMessage (fst (arrival (1/2) 48000)) audioMessage liveWorld)) = 5/2"
  using playback_monotonic [of liveWorld
      "[arrival (1/2) 48000, arrival (3/5) 24000, arrival 10 12000]"
      audioMessage "''AAAA''" "\<lparr>ctx_sampleRate = 24000, ctx_closed = False\<rparr>"
      "fst (arrival (1/2) 48000)" "silence 48000"]
  by (simp add: run_defs)

text \<open>
  C8 (gap-free under back-pressure). When every message of a run arrives with the
  context's clock at or before the cursor, each scheduled source starts exactly at the
  end of the one scheduled before it.
\<close>

theorem gap_free_under_back_pressure:
  "backPressured evs w \<Longrightarrow> backToBack (scheduledSince w (receive evs w))"
proof -
  assume "backPressured evs w"
  then obtain ss where "sourcesRef (receive evs w) = sourcesRef w @ ss" and "backToBack ss"
    using receive_backPressured by blast
  then show ?thesis by (simp add: scheduledSince_def)
qed

text \<open>
  Buffers of 2 s, 1 s and 0.5 s arriving at 0 s, 0.3 s and 1.2 s are started at 0 s, 2 s
  and 3 s.
\<close>

theorem gap_free_under_back_pressure_witness:
  "backPressured [arrival 0 48000, arrival (3/10) 24000, arrival (6/5) 12000] liveWorld \<and>
   backToBack (scheduledSince liveWorld
      (receive [arrival 0 48000, arrival (3/10) 24000, arrival (6/5) 12000] liveWorld)) \<and>
   map source_startAt (scheduledSince liveWorld
      (receive [arrival 0 48000, arrival (3/10) 24000, arrival (6/5) 12000] liveWorld)) = [0, 2, 3]"
proof -
  have bp: "backPressured [arrival 0 48000, arrival (3/10) 24000, arrival (6/5) 12000] liveWorld"
    by (simp add: run_defs)
  show ?thesis
    using bp gap_free_under_back_pressure [OF bp]
    by (simp add: run_defs)
qed

section \<open>Transcripts\<close>

lemma orElse_empty: "orElse p [] = (case p of None \<Rightarrow> [] | Some t \<Rightarrow> t)"
  by (simp add: orElse_def split: option.split)

lemma handleAudio_no_audio: "audioData m = None \<Longrightarrow> handleAudio e m w = Resolved w"
  by (simp add: handleAudio_def)

lemma handleAudio_app: "app (worldOf (handleAudio e m w)) = app w"
  by (simp add: handleAudio_def audioRaise_def audioStart_def Let_def split: option.split)

lemma toolCallBegin_texts:
  "liveUserText (app (toolCallBegin fc w)) = liveUserText (app w)"
  "liveAiText (app (toolCallBegin fc w)) = liveAiText (app w)"
  "history (app (toolCallBegin fc w)) = history (app w)"
  by (simp_all add: toolCallBegin_def)

lemma toolCallFinish_texts:
  "liveUserText (app (toolCallFinish e fc w)) = liveUserText (app w)"
  "liveAiText (app (toolCallFinish e fc w)) = liveAiText (app w)"
  by (simp_all add: toolCallFinish_def Let_def kernelOverload_def
      split: JobResult.split option.split SessionPromise.split)

lemma handleToolCalls_texts:
  "liveUserText (app (handleToolCalls es fcs w)) = liveUserText (app w) \<and>
   liveAiText (app (handleToolCalls es fcs w)) = liveAiText (app w)"
proof (induction fcs arbitrary: es w)
  case Nil
  show ?case by simp
next
  case (Cons fc fcs)
  show ?case
  proof (cases "call_name fc = ''generate_code''")
    case False
    then show ?thesis using Cons.IH [of es w] by simp
  next
    case True
    show ?thesis
    proof (cases es)
      case Nil
      then show ?thesis using True by (simp add: toolCallBegin_texts)
    next
      case (Cons e es')
      then show ?thesis
        using True Cons.IH [of es' "handleToolCall e fc w"]
        by (simp add: handleToolCall_def toolCallFinish_texts toolCallBegin_texts)
    qed
  qed
qed

lemma handleTranscripts_texts:
  "liveUserText (app (handleTranscripts m w)) =
     (case inputTranscription m of
        None \<Rightarrow> liveUserText (app w)
      | Some t \<Rightarrow> orElse (transcription_text t) [])"
  "liveAiText (app (handleTranscripts m w)) =
     (case outputTranscription m of
        None \<Rightarrow> liveAiText (app w)
      | Some t \<Rightarrow> orElse (transcription_text t) [])"
  by (simp_all add: handleTranscripts_def Let_def split: option.split)

lemma handleMessage_transcripts:
  "handleMessage e m w = Resolved w' \<Longrightarrow>
   liveUserText (app w') =
     (case inputTranscription m of
        None \<Rightarrow> liveUserText (app w)
      | Some t \<Rightarrow> orElse (transcription_text t) []) \<and>
   liveAiText (app w') =
     (case outputTranscription m of
        None \<Rightarrow> liveAiText (app w)
      | Some t \<Rightarrow> orElse (transcription_text t) [])"
proof -
  assume h: "handleMessage e m w = Resolved w'"
  then obtain w1 where a: "handleAudio e m w = Resolved w1"
    by (cases "handleAudio e m w") (simp_all add: handleMessage_def)
  then have app1: "app w1 = app w"
    using handleAudio_app [of e m w] by simp
  from h a have "w' = (case toolCall m of None \<Rightarrow> handleTranscripts m w1
        | Some fcs \<Rightarrow> handleToolCalls (env_jobs e) fcs (handleTranscripts m w1))"
    by (simp add: handleMessage_def Let_def split: option.splits)
  then show ?thesis
    by (cases "toolCall m")
       (simp_all add: handleToolCalls_texts handleTranscripts_texts app1 split: option.split)
qed

lemma handleMessage_local:
  "handleMessage e (partialTranscript LocalSpeaker p) w =
     Resolved (w\<lparr>app := (app w)\<lparr>liveUserText := orElse p []\<rparr>\<rparr>)"
  by (simp add: handleMessage_def handleAudio_no_audio handleTranscripts_def)

lemma handleMessage_remote:
  "handleMessage e (partialTranscript RemoteSpeaker p) w =
     Resolved (w\<lparr>app := (app w)\<lparr>liveAiText := orElse p []\<rparr>\<rparr>)"
  by (simp add: handleMessage_def handleAudio_no_audio handleTranscripts_def)

lemma partialTranscript_own:
  "channelText c (worldOf (handleMessage e (partialTranscript c p) w)) =
     (case p of None \<Rightarrow> [] | Some t \<Rightarrow> t)"
  by (cases c)
     (simp_all add: handleMessage_local handleMessage_remote orElse_empty
        del: partialTranscript.simps)

lemma partialTranscript_other:
  "channelText (otherChannel c) (worldOf (handleMessage e (partialTranscript c p) w)) =
     channelText (otherChannel c) w"
  by (cases c)
     (simp_all add: handleMessage_local handleMessage_remote del: partialTranscript.simps)

text \<open>
  C5 (transcript last-write-wins). One partial-transcript event for a channel replaces
  that channel's stored text by the event's text (the empty string when the event has
  none), whatever was stored before, and leaves the other channel's text as it was.
  After three such events for the same channel the stored text is that of the third, and
  the other channel's text is unchanged; the clock readings and other answers of the
  environment play no part.
\<close>

theorem transcript_last_write_wins:
  "channelText c (worldOf (handleMessage e (partialTranscript c p) w)) =
     (case p of None \<Rightarrow> [] | Some t \<Rightarrow> t) \<and>
   channelText (otherChannel c) (worldOf (handleMessage e (partialTranscript c p) w)) =
     channelText (otherChannel c) w \<and>
   channelText c (receive [(e1, partialTranscript c p1), (e2, partialTranscript c p2),
                           (e3, partialTranscript c p3)] w) =
     (case p3 of None \<Rightarrow> [] | Some t \<Rightarrow> t) \<and>
   channelText (otherChannel c)
     (receive [(e1, partialTranscript c p1), (e2, partialTranscript c p2),
               (e3, partialTranscript c p3)] w) =
     channelText (otherChannel c) w"
  by (simp add: partialTranscript_own partialTranscript_other del: partialTranscript.simps)

section \<open>Tool calls\<close>

lemma handleToolCalls_single:
  "call_name fc = ''generate_code'' \<Longrightarrow>
     handleToolCalls [e] [fc] w = toolCallFinish e fc (toolCallBegin fc w)"
  by (simp add: handleToolCall_def)

lemma toolCallBegin_session:
  "sessionPromiseRef (toolCallBegin fc w) = sessionPromiseRef w"
  "toolResponses (toolCallBegin fc w) = toolResponses w"
  "error (app (toolCallBegin fc w)) = error (app w)"
  by (simp_all add: toolCallBegin_def)

lemma stopSession_session:
  "sessionPromiseRef (stopSession w) = sessionPromiseRef w"
  "toolResponses (stopSession w) = toolResponses w"
  "error (app (stopSession w)) = error (app w)"
  by (simp_all add: stopSession_def Let_def)

lemma toolCallFinish_answered:
  "job_result e = JobResponse txt \<Longrightarrow> sessionPromiseRef w = Some SessionFulfilled \<Longrightarrow>
     toolCallFinish e fc w =
       w\<lparr>app := (app w)\<lparr>currentCode := orElse txt ''// Synthesis failed'',
                          isProcessing := False,
                          history := take 15
                            (\<lparr> snippet_id = toString (job_nowId e),
                               snippet_language = args_language (call_args fc),
                               snippet_code = orElse txt ''// Synthesis failed'',
                               snippet_description = args_description (call_args fc),
                               snippet_timestamp = job_nowTimestamp e \<rparr> # history (app w)),
                          view := ViewCode\<rparr>,
         toolResponses := toolResponses w @
           [\<lparr> response_id = call_id fc, response_name = call_name fc,
              response_result = ''Compiled.'' \<rparr>]\<rparr>"
  by (simp add: toolCallFinish_def Let_def)

lemma toolCallFinish_failed:
  "job_result e = JobError \<Longrightarrow> toolCallFinish e fc w = kernelOverload w"
  by (simp add: toolCallFinish_def)

lemma toolCallFinish_history:
  "length (history (app w)) \<le> 15 \<Longrightarrow> length (history (app (toolCallFinish e fc w))) \<le> 15"
  by (simp add: toolCallFinish_def Let_def kernelOverload_def
      split: JobResult.split option.split SessionPromise.split)

lemma handleToolCalls_history:
  "length (history (app w)) \<le> 15 \<Longrightarrow> length (history (app (handleToolCalls es fcs w))) \<le> 15"
proof (induction fcs arbitrary: es w)
  case Nil
  then show ?case by simp
next
  case (Cons fc fcs)
  show ?case
  proof (cases "call_name fc = ''generate_code''")
    case False
    then show ?thesis using Cons.IH [of w es] Cons.prems by simp
  next
    case True
    show ?thesis
    proof (cases es)
      case Nil
      then show ?thesis using True Cons.prems by (simp add: toolCallBegin_texts)
    next
      case (Cons e es')
      have "length (history (app (handleToolCall e fc w))) \<le> 15"
        using Cons.prems
        by (simp add: handleToolCall_def toolCallFinish_history toolCallBegin_texts)
      then show ?thesis
        using True Cons Cons.IH [of "handleToolCall e fc w" es'] by simp
    qed
  qed
qed

lemma handleMessage_history:
  "length (history (app w)) \<le> 15 \<Longrightarrow>
     length (history (app (worldOf (handleMessage e m w)))) \<le> 15"
proof -
  assume h: "length (history (app w)) \<le> 15"
  have t: "length (history (app (handleTranscripts m w1))) \<le> 15"
    if "app w1 = app w" for w1
    using h that by (simp add: handleTranscripts_def Let_def split: option.split)
  show ?thesis
  proof (cases "handleAudio e m w")
    case (Threw w1)
    then show ?thesis
      using h handleAudio_app [of e m w] by (simp add: handleMessage_def)
  next
    case (Resolved w1)
    then have "app w1 = app w" using handleAudio_app [of e m w] by simp
    from t [OF this] show ?thesis
      using Resolved
      by (simp add: handleMessage_def Let_def handleToolCalls_history split: option.split)
  qed
qed

lemma receive_history:
  "length (history (app w)) \<le> 15 \<Longrightarrow> length (history (app (receive evs w))) \<le> 15"
  by (induction evs arbitrary: w) (simp_all add: handleMessage_history)

text \<open>
  C10 (bounded history). When the secondary endpoint answers, the snippet built from the
  answer is put in front of the history and the list is cut to its first 15 entries: the
  history then has at most 15 entries and its first entry is the new snippet, whatever
  its length was before.
\<close>

theorem history_bounded:
  "history (app (toolCallFinish
      \<lparr>job_result = JobResponse txt, job_nowId = t1, job_nowTimestamp = t2\<rparr> fc w)) =
     take 15 (\<lparr> snippet_id = toString t1, snippet_language = args_language (call_args fc),
                snippet_code = orElse txt ''// Synthesis failed'',
                snippet_description = args_description (call_args fc),
                snippet_timestamp = t2 \<rparr> # history (app w)) \<and>
   length (history (app (toolCallFinish
      \<lparr>job_result = JobResponse txt, job_nowId = t1, job_nowTimestamp = t2\<rparr> fc w))) \<le> 15 \<and>
   hd (history (app (toolCallFinish
      \<lparr>job_result = JobResponse txt, job_nowId = t1, job_nowTimestamp = t2\<rparr> fc w))) =
     \<lparr> snippet_id = toString t1, snippet_language = args_language (call_args fc),
       snippet_code = orElse txt ''// Synthesis failed'',
       snippet_description = args_description (call_args fc),
       snippet_timestamp = t2 \<rparr>"
  by (simp add: toolCallFinish_def Let_def kernelOverload_def
      split: option.split SessionPromise.split)

text \<open>
  C2 (tool round-trip), as the code has it. For a \<^verbatim>\<open>generate_code\<close> invocation whose
  job answers with text \<open>T\<close>, in a session whose promise is fulfilled, exactly one tool
  response is sent. It carries the invocation's id unchanged, the name and the fixed
  result \<^verbatim>\<open>Compiled.\<close>; the text \<open>T\<close> is not in the response but becomes the current
  code and the code of the newest history entry (the placeholder
  \<^verbatim>\<open>// Synthesis failed\<close> when \<open>T\<close> is empty). The processing flag is cleared and the
  error field is left as it was.
\<close>

theorem tool_round_trip:
  "call_name fc = ''generate_code'' \<Longrightarrow> job_result e = JobResponse (Some T) \<Longrightarrow>
   sessionPromiseRef w = Some SessionFulfilled \<Longrightarrow>
   toolResponses (handleToolCalls [e] [fc] w) =
     toolResponses w @
       [\<lparr> response_id = call_id fc, response_name = ''generate_code'',
          response_result = ''Compiled.'' \<rparr>] \<and>
   currentCode (app (handleToolCalls [e] [fc] w)) = (if T = [] then ''// Synthesis failed'' else T) \<and>
   map snippet_code (take 1 (history (app (handleToolCalls [e] [fc] w)))) =
     [if T = [] then ''// Synthesis failed'' else T] \<and>
   \<not> isProcessing (app (handleToolCalls [e] [fc] w)) \<and>
   error (app (handleToolCalls [e] [fc] w)) = error (app w)"
proof -
  assume name: "call_name fc = ''generate_code''"
    and job: "job_result e = JobResponse (Some T)"
    and session: "sessionPromiseRef w = Some SessionFulfilled"
  have s: "sessionPromiseRef (toolCallBegin fc w) = Some SessionFulfilled"
    by (simp add: toolCallBegin_session session)
  show ?thesis
    unfolding handleToolCalls_single [OF name] toolCallFinish_answered [OF job s]
    by (simp add: toolCallBegin_session name orElse_def)
qed

text \<open>The invocation \<^verbatim>\<open>abc\<close> of the example, answered in a live session.\<close>

theorem tool_round_trip_witness:
  "call_name reverseCall = ''generate_code'' \<and>
   job_result reverseJob = JobResponse (Some ''def rev(s): return s[::-1]'') \<and>
   sessionPromiseRef liveWorld = Some SessionFulfilled \<and>
   toolResponses (handleToolCalls [reverseJob] [reverseCall] liveWorld) =
     [\<lparr> response_id = ''abc'', response_name = ''generate_code'',
        response_result = ''Compiled.'' \<rparr>] \<and>
   currentCode (app (handleToolCalls [reverseJob] [reverseCall] liveWorld)) =
     ''def rev(s): return s[::-1]'' \<and>
   \<not> isProcessing (app (handleToolCalls [reverseJob] [reverseCall] liveWorld))"
proof -
  have name: "call_name reverseCall = ''generate_code''"
    by (simp add: reverseCall_def)
  have job: "job_result reverseJob = JobResponse (Some ''def rev(s): return s[::-1]'')"
    by (simp add: reverseJob_def)
  have session: "sessionPromiseRef liveWorld = Some SessionFulfilled"
    by (simp add: liveWorld_def onopen_def startSession_def startOk_def)
  show ?thesis
    using name job session tool_round_trip [OF name job session]
    by (simp add: tool_defs)
qed

text \<open>
  The response to the example invocation carries \<^verbatim>\<open>Compiled.\<close>, not the text the
  endpoint produced.
\<close>

theorem tool_round_trip_counterexample:
  "toolResponses (handleToolCalls [reverseJob] [reverseCall] liveWorld) =
     [\<lparr> response_id = ''abc'', response_name = ''generate_code'',
        response_result = ''Compiled.'' \<rparr>] \<and>
   map response_result (toolResponses (handleToolCalls [reverseJob] [reverseCall] liveWorld)) \<noteq>
     [''def rev(s): return s[::-1]'']"
  by (simp add: tool_defs)

text \<open>
  C3 (result of a job that outlives \<^verbatim>\<open>stopSession\<close>), as the code has it.
  \<^verbatim>\<open>stopSession\<close> neither closes the live session nor clears
  \<^verbatim>\<open>sessionPromiseRef\<close>. When it runs between the dispatch of an invocation and the
  answer of its job, the answer is still recorded as the current code and one tool
  response with the invocation's id is still sent on the retained session; no error
  is recorded.
\<close>

theorem orphaned_result_still_sent:
  "job_result e = JobResponse txt \<Longrightarrow> sessionPromiseRef w = Some SessionFulfilled \<Longrightarrow>
   sessionPromiseRef (stopSession (toolCallBegin fc w)) = Some SessionFulfilled \<and>
   toolResponses (toolCallFinish e fc (stopSession (toolCallBegin fc w))) =
     toolResponses w @
       [\<lparr> response_id = call_id fc, response_name = call_name fc,
          response_result = ''Compiled.'' \<rparr>] \<and>
   currentCode (app (toolCallFinish e fc (stopSession (toolCallBegin fc w)))) =
     orElse txt ''// Synthesis failed'' \<and>
   error (app (toolCallFinish e fc (stopSession (toolCallBegin fc w)))) = error (app w)"
proof -
  assume job: "job_result e = JobResponse txt"
    and session: "sessionPromiseRef w = Some SessionFulfilled"
  have s: "sessionPromiseRef (stopSession (toolCallBegin fc w)) = Some SessionFulfilled"
    by (simp add: stopSession_session toolCallBegin_session session)
  show ?thesis
    unfolding toolCallFinish_answered [OF job s]
    by (simp add: stopSession_session toolCallBegin_session session)
qed

theorem orphaned_result_still_sent_witness:
  "job_result reverseJob = JobResponse (Some ''def rev(s): return s[::-1]'') \<and>
   sessionPromiseRef liveWorld = Some SessionFulfilled \<and>
   sessionPromiseRef (stopSession (toolCallBegin reverseCall liveWorld)) = Some SessionFulfilled \<and>
   map response_id (toolResponses (toolCallFinish reverseJob reverseCall
      (stopSession (toolCallBegin reverseCall liveWorld)))) = [''abc''] \<and>
   error (app (toolCallFinish reverseJob reverseCall
      (stopSession (toolCallBegin reverseCall liveWorld)))) = None"
proof -
  have job: "job_result reverseJob = JobResponse (Some ''def rev(s): return s[::-1]'')"
    by (simp add: reverseJob_def)
  have session: "sessionPromiseRef liveWorld = Some SessionFulfilled"
    by (simp add: liveWorld_def onopen_def startSession_def startOk_def)
  show ?thesis
    using job session orphaned_result_still_sent [OF job session, of reverseCall]
    by (simp add: tool_defs)
qed

text \<open>
  The example invocation is dispatched in a live session, the session is stopped, then
  the job answers: the response is sent all the same.
\<close>

theorem orphaned_result_counterexample:
  "toolResponses (toolCallFinish reverseJob reverseCall
      (stopSession (toolCallBegin reverseCall liveWorld))) =
     [\<lparr> response_id = ''abc'', response_name = ''generate_code'',
        response_result = ''Compiled.'' \<rparr>]"
  by (simp add: tool_defs)

text \<open>
  C4 (results delivered per accepted invocation), as the code has it. For a
  \<^verbatim>\<open>generate_code\<close> invocation in a session whose promise is fulfilled: when the job
  answers, exactly one tool response is sent; when the job fails, no tool response is
  sent at all, and the failure is recorded in the state as the error
  \<^verbatim>\<open>Kernel overload\<close> with the processing flag cleared.
\<close>

theorem tool_result_delivery:
  "call_name fc = ''generate_code'' \<Longrightarrow> sessionPromiseRef w = Some SessionFulfilled \<Longrightarrow>
   (job_result e = JobResponse txt \<longrightarrow>
      toolResponses (handleToolCalls [e] [fc] w) =
        toolResponses w @
          [\<lparr> response_id = call_id fc, response_name = call_name fc,
             response_result = ''Compiled.'' \<rparr>]) \<and>
   (job_result e = JobError \<longrightarrow>
      toolResponses (handleToolCalls [e] [fc] w) = toolResponses w \<and>
      error (app (handleToolCalls [e] [fc] w)) = Some ''Kernel overload'' \<and>
      \<not> isProcessing (app (handleToolCalls [e] [fc] w)))"
proof -
  assume name: "call_name fc = ''generate_code''"
    and session: "sessionPromiseRef w = Some SessionFulfilled"
  have s: "sessionPromiseRef (toolCallBegin fc w) = Some SessionFulfilled"
    by (simp add: toolCallBegin_session session)
  have ok: "toolResponses (handleToolCalls [e] [fc] w) =
        toolResponses w @
          [\<lparr> response_id = call_id fc, response_name = call_name fc,
             response_result = ''Compiled.'' \<rparr>]"
    if job: "job_result e = JobResponse txt"
    unfolding handleToolCalls_single [OF name] toolCallFinish_answered [OF job s]
    by (simp add: toolCallBegin_session)
  have bad: "toolResponses (handleToolCalls [e] [fc] w) = toolResponses w \<and>
      error (app (handleToolCalls [e] [fc] w)) = Some ''Kernel overload'' \<and>
      \<not> isProcessing (app (handleToolCalls [e] [fc] w))"
    if job: "job_result e = JobError"
    unfolding handleToolCalls_single [OF name] toolCallFinish_failed [OF job]
    by (simp add: kernelOverload_def toolCallBegin_session)
  from ok bad show ?thesis by blast
qed

text \<open>The example invocation, once with an answering job and once with a failing one.\<close>

theorem tool_result_delivery_witness:
  "call_name reverseCall = ''generate_code'' \<and>
   sessionPromiseRef liveWorld = Some SessionFulfilled \<and>
   map response_id (toolResponses (handleToolCalls [reverseJob] [reverseCall] liveWorld)) = [''abc''] \<and>
   toolResponses (handleToolCalls [failedJob] [reverseCall] liveWorld) = [] \<and>
   error (app (handleToolCalls [failedJob] [reverseCall] liveWorld)) = Some ''Kernel overload'' \<and>
   \<not> isProcessing (app (handleToolCalls [failedJob] [reverseCall] liveWorld))"
proof -
  have name: "call_name reverseCall = ''generate_code''"
    by (simp add: reverseCall_def)
  have session: "sessionPromiseRef liveWorld = Some SessionFulfilled"
    by (simp add: liveWorld_def onopen_def startSession_def startOk_def)
  show ?thesis
    using name session
      tool_result_delivery [OF name session, of reverseJob "Some ''def rev(s): return s[::-1]''"]
      tool_result_delivery [OF name session, of failedJob None]
    by (simp add: tool_defs)
qed

text \<open>A failing job in a live session: nothing is sent back for the invocation.\<close>

theorem tool_result_delivery_counterexample:
  "toolResponses (handleToolCalls [failedJob] [reverseCall] liveWorld) = [] \<and>
   error (app (handleToolCalls [failedJob] [reverseCall] liveWorld)) = Some ''Kernel overload''"
  by (simp add: tool_defs)

section \<open>Starting and stopping\<close>

text \<open>
  C9 (device denial). When \<^verbatim>\<open>getUserMedia\<close> rejects, a start from a state that is
  not listening records the reason \<^verbatim>\<open>Microphone permission denied\<close>, stays not
  listening, does not connect (the connection count and the session promise are as
  before) and sets up no capture path (no stream and no script processor is stored).
\<close>

theorem device_denial:
  "\<not> isListening (app w) \<Longrightarrow>
   error (app (startSession \<lparr>start_failure = Some GetUserMediaRejected, start_session = p\<rparr> w)) =
     Some ''Microphone permission denied'' \<and>
   \<not> isListening (app (startSession \<lparr>start_failure = Some GetUserMediaRejected, start_session = p\<rparr> w)) \<and>
   liveConnects (startSession \<lparr>start_failure = Some GetUserMediaRejected, start_session = p\<rparr> w) =
     liveConnects w \<and>
   sessionPromiseRef (startSession \<lparr>start_failure = Some GetUserMediaRejected, start_session = p\<rparr> w) =
     sessionPromiseRef w \<and>
   scriptProcessorRef (startSession \<lparr>start_failure = Some GetUserMediaRejected, start_session = p\<rparr> w) =
     scriptProcessorRef w \<and>
   streamRef (startSession \<lparr>start_failure = Some GetUserMediaRejected, start_session = p\<rparr> w) =
     streamRef w"
  by (simp add: startSession_def micDenied_def)

theorem device_denial_witness:
  "\<not> isListening (app initialWorld) \<and>
   error (app (startSession startDenied initialWorld)) = Some ''Microphone permission denied'' \<and>
   \<not> isListening (app (startSession startDenied initialWorld)) \<and>
   liveConnects (startSession startDenied initialWorld) = 0 \<and>
   sessionPromiseRef (startSession startDenied initialWorld) = None"
proof -
  have idle: "\<not> isListening (app initialWorld)"
    by (simp add: initialWorld_def initialState_def)
  show ?thesis
    using idle device_denial [OF idle, of SessionFulfilled]
    by (simp add: startDenied_def initialWorld_def)
qed

text \<open>
  C7 (pending playback at teardown), as the code has it. \<^verbatim>\<open>stopSession\<close> does not
  touch the set of sources: every source scheduled before is still in it afterwards, and
  the cursor is unchanged. What it does to playback is close the output context; it also
  clears the listening flag.
\<close>

theorem stop_keeps_sources:
  "sourcesRef (stopSession w) = sourcesRef w \<and>
   nextStartTimeRef (stopSession w) = nextStartTimeRef w \<and>
   outAudioContextRef (stopSession w) =
     map_option (\<lambda>c. c\<lparr>ctx_closed := True\<rparr>) (outAudioContextRef w) \<and>
   \<not> isListening (app (stopSession w))"
  by (simp add: stopSession_def Let_def)

text \<open>A source scheduled in a live session is still in the set after the stop.\<close>

theorem stop_keeps_sources_counterexample:
  "sourcesRef (stopSession (receive [arrival (1/2) 48000] liveWorld)) =
     [\<lparr>source_buffer = silence 48000, source_startAt = 1/2\<rparr>] \<and>
   sourcesRef (stopSession (receive [arrival (1/2) 48000] liveWorld)) \<noteq> []"
  by (simp add: run_defs stopSession_def)

text \<open>
  C6 (cursor across sessions), as the code has it. \<^verbatim>\<open>startSession\<close> never writes the
  cursor, whether it succeeds or fails: \<^verbatim>\<open>nextStartTimeRef\<close> is 0 when the component
  is created and afterwards keeps whatever value the sessions before have accumulated;
  the set of sources is kept as well.
\<close>

theorem start_keeps_cursor:
  "nextStartTimeRef (startSession e w) = nextStartTimeRef w \<and>
   sourcesRef (startSession e w) = sourcesRef w \<and>
   nextStartTimeRef initialWorld = 0"
  by (simp add: startSession_def micDenied_def Let_def initialWorld_def)

text \<open>
  The same successful start gives cursor 0 in a fresh component and cursor 2.5 s after a
  session that played one 2 s buffer from 0.5 s; there, a 1 s buffer arriving at 0.1 s on
  the new context's clock is started at 2.5 s.
\<close>

theorem start_keeps_cursor_counterexample:
  "nextStartTimeRef (startSession startOk initialWorld) = 0 \<and>
   nextStartTimeRef
     (startSession startOk (stopSession (receive [arrival (1/2) 48000] liveWorld))) = 5/2 \<and>
   map source_startAt
     (scheduledSince
        (startSession startOk (stopSession (receive [arrival (1/2) 48000] liveWorld)))
        (receive [arrival (1/10) 24000]
           (startSession startOk (stopSession (receive [arrival (1/2) 48000] liveWorld))))) =
     [5/2]"
  by (simp add: run_defs stopSession_def)

end
